theory Spec2Isabelle
  imports Complex_Main
begin

section \<open>Values of the module\<close>

text \<open>
  The objects that can stand for \<open>pool_type\<close>: the two pool classes the module imports
  (\<open>Pool\<close>, \<open>ThreadPool\<close>), its own subclass \<open>MyPool\<close>, the metaclass \<open>type\<close> (written
  \<open>PyType\<close>), which is what \<open>type(...)\<close> returns for every class, and a pool object
  (\<open>PoolObject\<close>, an instance of \<open>Pool\<close>), the only kind of value whose \<open>type(...)\<close> is
  \<open>Pool\<close>.
\<close>

datatype pyobj = Pool | ThreadPool | MyPool | PyType | PoolObject

fun py_type :: "pyobj \<Rightarrow> pyobj" where
  "py_type Pool = PyType"
| "py_type ThreadPool = PyType"
| "py_type MyPool = PyType"
| "py_type PyType = PyType"
| "py_type PoolObject = Pool"

fun is_pool_class :: "pyobj \<Rightarrow> bool" where
  "is_pool_class Pool = True"
| "is_pool_class ThreadPool = True"
| "is_pool_class MyPool = True"
| "is_pool_class PyType = False"
| "is_pool_class PoolObject = False"

text \<open>
  The two pool kinds of the spec: process (\<open>Pool\<close>) and thread (\<open>ThreadPool\<close>). They
  are the two values the module itself passes as \<open>pool_type\<close>.
\<close>

fun is_pool_kind :: "pyobj \<Rightarrow> bool" where
  "is_pool_kind Pool = True"
| "is_pool_kind ThreadPool = True"
| "is_pool_kind MyPool = False"
| "is_pool_kind PyType = False"
| "is_pool_kind PoolObject = False"

text \<open>
  Errors a dispatch call can raise: \<open>ConfigurationError\<close> for invalid pool parameters
  (the runtime's \<open>ValueError\<close>), \<open>TypeError\<close> for calling what is not callable, passing a
  keyword a constructor does not take, or iterating what is not iterable,
  \<open>AssertionError\<close> for the assertion that fails when \<open>MyPool\<close> creates its first worker,
  and \<open>WorkerInvocationError e\<close> for the error \<open>e\<close> that \<open>fn\<close> itself raised on a work
  item.
\<close>

datatype 'e error = ConfigurationError | TypeError | AssertionError | WorkerInvocationError 'e

text \<open>
  What a dispatch call hands back: it raises, it returns a list of results, or it returns
  a list of \<open>n\<close> \<open>None\<close> placeholders (\<open>Nones n\<close>, with \<open>n > 0\<close>).
\<close>

datatype ('e, 'b) outcome = Raised "'e error" | Returned "'b list" | Nones nat

text \<open>
  What a call writes: \<open>print\<close> lines on standard output and the stack trace that
  \<open>traceback.print_exc()\<close> writes for the error being handled.
\<close>

datatype 'e line = Stdout string | Traceback 'e

section \<open>The worker pool\<close>

text \<open>
  Modelled from the spec: the worker pool is the runtime's (\<open>multiprocessing.pool\<close>), an
  external collaborator that is not part of the repository. The definitions of this
  section follow the contract of the spec's Pool Adapter (\<open>construct\<close>, \<open>distribute\<close>, the
  asynchronous submission primitives); where the spec is silent (a chunk size below one,
  which error is the first) they follow what the runtime's pool does.

  A pool records the kind of its workers, how many were spawned, and the recycling
  threshold (\<open>None\<close>: a worker lives as long as the pool). The model takes \<open>fn\<close>, the
  work items and the values of \<open>fn\<close> to be transferable to a worker and back, as the process
  kind requires, and every call of \<open>fn\<close> to return or raise.
\<close>

datatype worker_kind = Process | NoDaemonProcess | Thread

record pool =
  kind :: worker_kind
  workers :: nat
  recycle_after :: "int option"

text \<open>
  Modelled from the spec: \<open>construct\<close> fails with \<open>ConfigurationError\<close> if the worker
  count is not positive, before any worker is spawned; the runtime's constructor rejects
  a recycling threshold that is not positive in the same way.
\<close>

definition Pool_init :: "worker_kind \<Rightarrow> int \<Rightarrow> int option \<Rightarrow> 'e error + pool" where
  "Pool_init k processes maxtasksperchild =
     (if processes < 1 then Inl ConfigurationError
      else if (case maxtasksperchild of None \<Rightarrow> False | Some m \<Rightarrow> m \<le> 0)
           then Inl ConfigurationError
      else Inr \<lparr>kind = k, workers = nat processes, recycle_after = maxtasksperchild\<rparr>)"

text \<open>
  The call \<open>pool_type(processes)\<close> (keyword \<open>None\<close>) or
  \<open>pool_type(processes, maxtasksperchild=m)\<close> (keyword \<open>Some m\<close>), entered as a context
  manager. \<open>ThreadPool\<close> takes no \<open>maxtasksperchild\<close> keyword; \<open>type(processes)\<close> is the
  class \<open>int\<close>, which is no context manager; a pool object is not callable.

  \<open>MyPool\<close> sets \<open>Process = NoDaemonProcess\<close>. The pool constructor checks its parameters
  and then creates its workers by \<open>Process(ctx, target=..., ...)\<close>; with the class
  \<open>NoDaemonProcess\<close> in that place the context arrives as the \<open>group\<close> argument of the
  process constructor, whose \<open>assert group is None\<close> fails. So \<open>MyPool(n)\<close> raises for every
  \<open>n\<close>: \<open>ConfigurationError\<close> from the parameter check, otherwise \<open>AssertionError\<close> at the
  first worker, and no pool exists.
\<close>

fun py_call :: "pyobj \<Rightarrow> int \<Rightarrow> int option \<Rightarrow> 'e error + pool" where
  "py_call Pool processes kw = Pool_init Process processes kw"
| "py_call MyPool processes kw =
     (case Pool_init NoDaemonProcess processes kw of
        Inl e \<Rightarrow> Inl e
      | Inr p \<Rightarrow> Inl AssertionError)"
| "py_call ThreadPool processes None = Pool_init Thread processes None"
| "py_call ThreadPool processes (Some m) = Inl TypeError"
| "py_call PyType processes kw = Inl TypeError"
| "py_call PoolObject processes kw = Inl TypeError"

text \<open>
  Modelled from the spec: \<open>distribute\<close> hands the work items to the workers in batches
  of \<open>chunk_size\<close> consecutive items (the runtime's \<open>_get_tasks\<close>).
\<close>

function batches :: "nat \<Rightarrow> 'a list \<Rightarrow> 'a list list" where
  "batches sz it =
     (if sz = 0 \<or> it = [] then [] else take sz it # batches sz (drop sz it))"
  by pat_completeness auto
termination
  by (relation "measure (\<lambda>(sz, it). length it)") auto

declare batches.simps [simp del]

text \<open>
  A worker runs one batch: \<open>fn\<close> on each item in turn, the item unpacked as positional
  arguments, stopping at the first item on which \<open>fn\<close> raises (the runtime's
  \<open>starmapstar\<close>).
\<close>

fun starmapstar :: "('a list \<Rightarrow> 'e + 'b) \<Rightarrow> 'a list list \<Rightarrow> 'e + 'b list" where
  "starmapstar fn [] = Inr []"
| "starmapstar fn (a # as) =
     (case fn a of
        Inl e \<Rightarrow> Inl e
      | Inr v \<Rightarrow> (case starmapstar fn as of Inl e \<Rightarrow> Inl e | Inr vs \<Rightarrow> Inr (v # vs)))"

text \<open>
  The one thing the scheduler decides is the order in which the batches' outcomes come
  back. A schedule is a list of batch numbers: the batches it names come back in that
  order (first mention counts), the others after them in submission order.
\<close>

definition arrival :: "nat \<Rightarrow> nat list \<Rightarrow> nat list" where
  "arrival n sched =
     remdups (filter (\<lambda>i. i < n) sched) @ filter (\<lambda>i. i \<notin> set sched) [0..<n]"

text \<open>
  The pool keeps the first exception that comes back and drops the later ones
  (\<open>MapResult._set\<close>: "only store first exception").
\<close>

fun first_exception :: "('e + 'b list) list \<Rightarrow> nat list \<Rightarrow> 'e option" where
  "first_exception outs [] = None"
| "first_exception outs (i # js) =
     (if i < length outs
      then (case outs ! i of Inl e \<Rightarrow> Some e | Inr vs \<Rightarrow> first_exception outs js)
      else first_exception outs js)"

fun values_of :: "('e + 'b list) list \<Rightarrow> 'b list" where
  "values_of [] = []"
| "values_of (Inr vs # outs) = vs @ values_of outs"
| "values_of (Inl e # outs) = values_of outs"

text \<open>
  Modelled from the spec: \<open>distribute(pool, fn, work_items, chunk_size)\<close> applies \<open>fn\<close>
  to each work item, batching per \<open>chunk_size\<close>, blocks until all complete, preserves
  input order, and propagates the first raised error. In the runtime's pool an empty
  iterable gives the empty list, and a chunk size below one generates no task at all:
  the call returns the list of placeholders \<open>[None] * len(iterable)\<close> at once.
\<close>

definition starmap ::
  "pool \<Rightarrow> nat list \<Rightarrow> ('a list \<Rightarrow> 'e + 'b) \<Rightarrow> 'a list list \<Rightarrow> int \<Rightarrow> ('e, 'b) outcome" where
  "starmap p sched fn iterable chunksize =
     (if iterable = [] then Returned []
      else if chunksize \<le> 0 then Nones (length iterable)
      else
        (let outs = map (starmapstar fn) (batches (nat chunksize) iterable)
         in case first_exception outs (arrival (length outs) sched) of
              Some e \<Rightarrow> Raised (WorkerInvocationError e)
            | None \<Rightarrow> Returned (values_of outs)))"

text \<open>
  Modelled from the spec: asynchronous submission. \<open>apply_async(fn, arg)\<close> submits one
  call \<open>fn(*arg)\<close> and returns a handle; \<open>get\<close> blocks until the call is over and returns
  its value or raises its error. \<open>starmap_async\<close> returns one handle for the whole map;
  that handle is not iterable.
\<close>

datatype ('e, 'b) ApplyResult = ApplyResult "'e + 'b"

datatype ('e, 'b) MapResult = MapResult "('e, 'b) outcome"

definition apply_async ::
  "pool \<Rightarrow> ('a list \<Rightarrow> 'e + 'b) \<Rightarrow> 'a list \<Rightarrow> ('e, 'b) ApplyResult" where
  "apply_async p fn arg = ApplyResult (fn arg)"

fun get :: "('e, 'b) ApplyResult \<Rightarrow> 'e + 'b" where
  "get (ApplyResult x) = x"

definition starmap_async ::
  "pool \<Rightarrow> nat list \<Rightarrow> ('a list \<Rightarrow> 'e + 'b) \<Rightarrow> 'a list list \<Rightarrow> int \<Rightarrow> ('e, 'b) MapResult" where
  "starmap_async p sched fn iterable chunksize = MapResult (starmap p sched fn iterable chunksize)"

definition iter_MapResult :: "('e, 'b) MapResult \<Rightarrow> 'e error + ('e, 'b) ApplyResult list" where
  "iter_MapResult r = Inl TypeError"

section \<open>The dispatch functions\<close>

text \<open>
  A dispatch call constructs one pool, uses it inside a \<open>with\<close> block and returns. The
  model returns what the caller and the host can observe of the call: the pool that was
  constructed (\<open>None\<close> when construction raised, so that no worker was spawned), the lines
  written, and the result.
\<close>

record ('e, 'b) call =
  made :: "pool option"
  written :: "'e line list"
  result :: "('e, 'b) outcome"

text \<open>
  \<open>with pool_type(...) as pool: results = helper(pool)\<close>: an error of the constructor
  leaves the block unentered; otherwise the helper runs on the pool.
\<close>

fun with_pool ::
  "'e error + pool \<Rightarrow> (pool \<Rightarrow> 'e line list \<times> ('e, 'b) outcome) \<Rightarrow> ('e, 'b) call" where
  "with_pool (Inl e) helper = \<lparr>made = None, written = [], result = Raised e\<rparr>"
| "with_pool (Inr p) helper =
     (case helper p of (out, res) \<Rightarrow> \<lparr>made = Some p, written = out, result = res\<rparr>)"

text \<open>The default of the parameter \<open>args\<close> in every signature: \<open>args=[[]]\<close>.\<close>

definition args_default :: "'a list list" where
  "args_default = [[]]"

text \<open>
  \<open>multithread(fn, args, pool_type, processes, maxtasksperchild, chunksize)\<close>. The
  last parameter of the model is the schedule of the run.
\<close>

definition multithread ::
  "('a list \<Rightarrow> 'e + 'b) \<Rightarrow> 'a list list \<Rightarrow> pyobj \<Rightarrow> int \<Rightarrow> int \<Rightarrow> int \<Rightarrow> nat list
     \<Rightarrow> ('e, 'b) call" where
  "multithread fn args pool_type processes maxtasksperchild chunksize sched =
     (let helper = (\<lambda>pool. ([], starmap pool sched fn args chunksize))
      in if py_type pool_type = Pool
         then with_pool (py_call pool_type processes (Some maxtasksperchild)) helper
         else with_pool (py_call pool_type processes None) helper)"

definition safe_multithread ::
  "('a list \<Rightarrow> 'e + 'b) \<Rightarrow> 'a list list \<Rightarrow> int \<Rightarrow> int \<Rightarrow> nat list \<Rightarrow> ('e, 'b) call" where
  "safe_multithread fn args processes chunksize sched =
     multithread fn args ThreadPool processes 1 chunksize sched"

text \<open>
  The collection loop of the failsafe helper: \<open>results.append(r.get())\<close> for each handle
  in turn; a bare \<open>except\<close> catches whatever \<open>get\<close> raises, prints the delimited trace if
  \<open>verbose\<close>, and goes on.
\<close>

fun collect ::
  "bool \<Rightarrow> ('e, 'b) ApplyResult list \<Rightarrow> 'e line list \<times> 'b list \<Rightarrow> 'e line list \<times> 'b list" where
  "collect verbose [] st = st"
| "collect verbose (r # rs) (out, results) =
     (case get r of
        Inr v \<Rightarrow> collect verbose rs (out, results @ [v])
      | Inl e \<Rightarrow>
          collect verbose rs
            (if verbose
             then out @ [Stdout ''######BEGIN TRACEBACK######'', Traceback e,
                         Stdout ''######END TRACEBACK######'', Stdout '''']
             else out,
             results))"

definition multithread_failsafe ::
  "('a list \<Rightarrow> 'e + 'b) \<Rightarrow> 'a list list \<Rightarrow> pyobj \<Rightarrow> int \<Rightarrow> int \<Rightarrow> bool \<Rightarrow> ('e, 'b) call" where
  "multithread_failsafe fn args pool_type processes chunksize verbose =
     (let helper = (\<lambda>pool.
            let result_objs = map (apply_async pool fn) args
            in case collect verbose result_objs ([], []) of (out, results) \<Rightarrow> (out, Returned results))
      in if py_type pool_type = Pool
         then with_pool (py_call pool_type processes None) helper
         else with_pool (py_call pool_type processes None) helper)"

definition safe_multithread_failsafe ::
  "('a list \<Rightarrow> 'e + 'b) \<Rightarrow> 'a list list \<Rightarrow> int \<Rightarrow> int \<Rightarrow> bool \<Rightarrow> ('e, 'b) call" where
  "safe_multithread_failsafe fn args processes chunksize verbose =
     multithread_failsafe fn args ThreadPool processes 1 verbose"

section \<open>The deprecated class\<close>

record jwmultithreaded =
  cache_updated :: bool

definition jwmultithreaded_init :: jwmultithreaded where
  "jwmultithreaded_init = \<lparr>cache_updated = False\<rparr>"

definition jwmultithreaded_multithread ::
  "jwmultithreaded \<Rightarrow> ('a list \<Rightarrow> 'e + 'b) \<Rightarrow> 'a list list \<Rightarrow> pyobj \<Rightarrow> int \<Rightarrow> int \<Rightarrow> int
     \<Rightarrow> nat list \<Rightarrow> ('e, 'b) call" where
  "jwmultithreaded_multithread self fn args pool_type processes maxtasksperchild chunksize sched =
     (let helper = (\<lambda>pool. ([], starmap pool sched fn args chunksize))
      in if py_type pool_type = Pool
         then with_pool (py_call pool_type processes (Some maxtasksperchild)) helper
         else with_pool (py_call pool_type processes None) helper)"

definition jwmultithreaded_safe_multithread ::
  "jwmultithreaded \<Rightarrow> ('a list \<Rightarrow> 'e + 'b) \<Rightarrow> 'a list list \<Rightarrow> int \<Rightarrow> int \<Rightarrow> nat list
     \<Rightarrow> ('e, 'b) call" where
  "jwmultithreaded_safe_multithread self fn args processes chunksize sched =
     jwmultithreaded_multithread self fn args ThreadPool processes 1 chunksize sched"

text \<open>
  The method iterates over what \<open>starmap_async\<close> returns. The \<open>for\<close> statement is outside
  the \<open>try\<close>, so the error of the iteration leaves the method.
\<close>

definition jwmultithreaded_multithread_failsafe ::
  "jwmultithreaded \<Rightarrow> ('a list \<Rightarrow> 'e + 'b) \<Rightarrow> 'a list list \<Rightarrow> pyobj \<Rightarrow> int \<Rightarrow> int \<Rightarrow> int
     \<Rightarrow> bool \<Rightarrow> nat list \<Rightarrow> ('e, 'b) call" where
  "jwmultithreaded_multithread_failsafe self fn args pool_type processes maxtasksperchild
       chunksize verbose sched =
     (let helper = (\<lambda>pool.
            case iter_MapResult (starmap_async pool sched fn args chunksize) of
              Inl e \<Rightarrow> ([], Raised e)
            | Inr rs \<Rightarrow>
                (case collect verbose rs ([], []) of (out, results) \<Rightarrow> (out, Returned results)))
      in if py_type pool_type = Pool
         then with_pool (py_call pool_type processes (Some maxtasksperchild)) helper
         else with_pool (py_call pool_type processes None) helper)"

definition jwmultithreaded_safe_multithread_failsafe ::
  "jwmultithreaded \<Rightarrow> ('a list \<Rightarrow> 'e + 'b) \<Rightarrow> 'a list list \<Rightarrow> int \<Rightarrow> bool \<Rightarrow> nat list
     \<Rightarrow> ('e, 'b) call" where
  "jwmultithreaded_safe_multithread_failsafe self fn args processes verbose sched =
     jwmultithreaded_multithread_failsafe self fn args ThreadPool processes 1 1 verbose sched"

section \<open>The functions of the spec's scenarios\<close>

text \<open>
  \<open>square(x) = x*x\<close> and \<open>reciprocal(x) = 1/x\<close>, each of one positional argument; a call
  with another number of arguments raises \<open>TypeError\<close>, and \<open>1/0\<close> raises
  \<open>ZeroDivisionError\<close>. The quotient is a float in Python; the model takes the exact
  quotient, which is what the float is for the inputs of the scenario (\<open>1.0\<close>, \<open>0.5\<close>).
\<close>

datatype pyexc = ArityError | ZeroDivisionError

fun square :: "int list \<Rightarrow> pyexc + int" where
  "square [x] = Inr (x * x)"
| "square xs = Inl ArityError"

fun reciprocal :: "int list \<Rightarrow> pyexc + real" where
  "reciprocal [x] = (if x = 0 then Inl ZeroDivisionError else Inr (1 / real_of_int x))"
| "reciprocal xs = Inl ArityError"

section \<open>Facts about the pool and the collection loop\<close>

lemma py_type_class: "is_pool_class pool_type \<Longrightarrow> py_type pool_type \<noteq> Pool"
  by (cases pool_type) simp_all

lemma is_pool_kind_class: "is_pool_kind pool_type \<Longrightarrow> is_pool_class pool_type"
  by (cases pool_type) simp_all

lemma py_call_kind:
  "is_pool_kind pool_type \<Longrightarrow> 0 < processes \<Longrightarrow>
     \<exists>k. (py_call pool_type processes None :: 'e error + pool)
            = Inr \<lparr>kind = k, workers = nat processes, recycle_after = None\<rparr>"
  by (cases pool_type) (simp_all add: Pool_init_def)

lemma py_call_nonpositive:
  "is_pool_class pool_type \<Longrightarrow> processes \<le> 0 \<Longrightarrow>
     (py_call pool_type processes None :: 'e error + pool) = Inl ConfigurationError"
  by (cases pool_type) (simp_all add: Pool_init_def)

lemma collect_results:
  "map Inr (snd (collect verbose rs (out, acc)))
     = map Inr acc @ filter (\<lambda>x. \<not> isl x) (map get rs)"
proof (induction rs arbitrary: out acc)
  case Nil
  then show ?case by simp
next
  case (Cons r rs)
  then show ?case by (cases "get r") simp_all
qed

lemma collect_quiet: "fst (collect False rs (out, acc)) = out"
  by (induction rs arbitrary: out acc) (simp_all split: sum.splits)

lemma collect_no_failure:
  "\<forall>r\<in>set rs. \<not> isl (get r) \<Longrightarrow> fst (collect verbose rs (out, acc)) = out"
proof (induction rs arbitrary: out acc)
  case Nil
  then show ?case by simp
next
  case (Cons r rs)
  then show ?case by (cases "get r") simp_all
qed

lemma get_apply_async: "map get (map (apply_async p fn) args) = map fn args"
  by (simp add: apply_async_def)

subsection \<open>Batches, arrival order and the map over the pool\<close>

lemma concat_batches: "0 < n \<Longrightarrow> concat (batches n xs) = xs"
proof (induction n xs rule: batches.induct)
  case (1 sz it)
  then show ?case by (subst batches.simps) auto
qed

lemma starmapstar_all_succeed:
  "\<forall>a\<in>set b. \<not> isl (fn a) \<Longrightarrow> starmapstar fn b = Inr (map (\<lambda>a. projr (fn a)) b)"
proof (induction b)
  case Nil
  then show ?case by simp
next
  case (Cons a b)
  then show ?case by (cases "fn a") simp_all
qed

lemma starmapstar_Inl: "starmapstar fn b = Inl e \<Longrightarrow> \<exists>a\<in>set b. fn a = Inl e"
proof (induction b)
  case Nil
  then show ?case by simp
next
  case (Cons a b)
  then show ?case by (cases "fn a") (auto split: sum.splits)
qed

lemma starmapstar_fails: "\<exists>a\<in>set b. isl (fn a) \<Longrightarrow> isl (starmapstar fn b)"
proof (induction b)
  case Nil
  then show ?case by simp
next
  case (Cons a b)
  then show ?case by (cases "fn a") (auto split: sum.splits)
qed

lemma values_of_all_succeed:
  "\<forall>b\<in>set bs. \<forall>a\<in>set b. \<not> isl (fn a) \<Longrightarrow>
     values_of (map (starmapstar fn) bs) = map (\<lambda>a. projr (fn a)) (concat bs)"
proof (induction bs)
  case Nil
  then show ?case by simp
next
  case (Cons b bs)
  then show ?case by (simp add: starmapstar_all_succeed)
qed

lemma first_exception_None:
  "\<forall>i\<in>set js. i < length outs \<longrightarrow> \<not> isl (outs ! i) \<Longrightarrow> first_exception outs js = None"
proof (induction js)
  case Nil
  then show ?case by simp
next
  case (Cons i js)
  then show ?case by (cases "outs ! i") auto
qed

lemma first_exception_Some:
  "\<exists>i\<in>set js. i < length outs \<and> isl (outs ! i) \<Longrightarrow>
     \<exists>e k. first_exception outs js = Some e \<and> k < length js \<and> js ! k < length outs
          \<and> outs ! (js ! k) = Inl e
          \<and> (\<forall>j<k. \<not> (js ! j < length outs \<and> isl (outs ! (js ! j))))"
proof (induction js)
  case Nil
  then show ?case by simp
next
  case (Cons i js)
  show ?case
  proof (cases "i < length outs \<and> isl (outs ! i)")
    case True
    then obtain e where e: "outs ! i = Inl e" by (cases "outs ! i") auto
    with True have "first_exception outs (i # js) = Some e" by simp
    with True e show ?thesis
      by (intro exI [of _ e] exI [of _ 0]) simp
  next
    case False
    with Cons.prems have "\<exists>i\<in>set js. i < length outs \<and> isl (outs ! i)" by auto
    from Cons.IH [OF this] obtain e k where
      h: "first_exception outs js = Some e" "k < length js" "js ! k < length outs"
         "outs ! (js ! k) = Inl e"
         "\<forall>j<k. \<not> (js ! j < length outs \<and> isl (outs ! (js ! j)))"
      by blast
    from False h(1) have f: "first_exception outs (i # js) = Some e"
      by (cases "outs ! i") auto
    have "\<forall>j<Suc k. \<not> ((i # js) ! j < length outs \<and> isl (outs ! ((i # js) ! j)))"
    proof (intro allI impI)
      fix j assume "j < Suc k"
      then show "\<not> ((i # js) ! j < length outs \<and> isl (outs ! ((i # js) ! j)))"
        using False h(5) by (cases j) auto
    qed
    with f h show ?thesis
      by (intro exI [of _ e] exI [of _ "Suc k"]) simp
  qed
qed

lemma set_arrival: "set (arrival n sched) = {0..<n}"
  by (auto simp add: arrival_def)

lemma distinct_arrival: "distinct (arrival n sched)"
  by (auto simp add: arrival_def)

lemma set_batches: "0 < n \<Longrightarrow> b \<in> set (batches n xs) \<Longrightarrow> set b \<subseteq> set xs"
  using concat_batches [of n xs] by (metis Sup_upper set_concat image_eqI)

lemma length_arrival: "length (arrival n sched) = n"
proof -
  have "card (set (arrival n sched)) = length (arrival n sched)"
    using distinct_arrival by (rule distinct_card)
  then show ?thesis by (simp add: set_arrival)
qed

lemma arrival_less: "j < n \<Longrightarrow> arrival n sched ! j < n"
proof -
  assume "j < n"
  then have "j < length (arrival n sched)" by (simp add: length_arrival)
  then have "arrival n sched ! j \<in> set (arrival n sched)" by (rule nth_mem)
  then show ?thesis by (simp only: set_arrival atLeastLessThan_iff)
qed

lemma starmap_all_succeed:
  assumes "0 < chunksize" and "\<forall>a\<in>set args. \<not> isl (fn a)"
  shows "starmap p sched fn args chunksize = Returned (map (\<lambda>a. projr (fn a)) args)"
proof (cases "args = []")
  case True
  then show ?thesis by (simp add: starmap_def)
next
  case False
  let ?n = "nat chunksize"
  let ?outs = "map (starmapstar fn) (batches ?n args)"
  have n: "0 < ?n" using assms(1) by simp
  have ok: "\<forall>b\<in>set (batches ?n args). \<forall>a\<in>set b. \<not> isl (fn a)"
    using set_batches [OF n] assms(2) by blast
  have "\<forall>i\<in>set (arrival (length ?outs) sched). i < length ?outs \<longrightarrow> \<not> isl (?outs ! i)"
  proof (intro ballI impI)
    fix i assume i: "i < length ?outs"
    then have "batches ?n args ! i \<in> set (batches ?n args)" by simp
    with ok have "\<forall>a\<in>set (batches ?n args ! i). \<not> isl (fn a)" by blast
    then have "\<not> isl (starmapstar fn (batches ?n args ! i))"
      by (simp add: starmapstar_all_succeed)
    with i show "\<not> isl (?outs ! i)" by simp
  qed
  then have none: "first_exception ?outs (arrival (length ?outs) sched) = None"
    by (rule first_exception_None)
  have "values_of ?outs = map (\<lambda>a. projr (fn a)) args"
    using values_of_all_succeed [OF ok] concat_batches [OF n, of args] by simp
  with none False assms(1) show ?thesis
    by (simp add: starmap_def Let_def)
qed

lemma starmap_some_fail:
  assumes "0 < chunksize" and "\<exists>a\<in>set args. isl (fn a)"
  shows "\<exists>e k. starmap p sched fn args chunksize = Raised (WorkerInvocationError e)
           \<and> (\<exists>a\<in>set args. fn a = Inl e)
           \<and> k < length (batches (nat chunksize) args)
           \<and> starmapstar fn (batches (nat chunksize) args
                 ! (arrival (length (batches (nat chunksize) args)) sched ! k)) = Inl e
           \<and> (\<forall>j<k. \<not> isl (starmapstar fn (batches (nat chunksize) args
                 ! (arrival (length (batches (nat chunksize) args)) sched ! j))))"
proof -
  define bs where "bs = batches (nat chunksize) args"
  define outs where "outs = map (starmapstar fn) bs"
  define ord where "ord = arrival (length bs) sched"
  have n: "0 < nat chunksize" using assms(1) by simp
  have ne: "args \<noteq> []" using assms(2) by auto
  have cc: "concat bs = args" unfolding bs_def using n by (rule concat_batches)
  have lo: "length outs = length bs" by (simp add: outs_def)
  from assms(2) obtain a where a: "a \<in> set args" "isl (fn a)" by blast
  from a(1) cc have "a \<in> set (concat bs)" by simp
  then obtain b where b: "b \<in> set bs" "a \<in> set b" by auto
  from b(1) obtain i where i: "i < length bs" "bs ! i = b"
    unfolding in_set_conv_nth by blast
  have "\<exists>a\<in>set b. isl (fn a)" using a(2) b(2) by blast
  then have "isl (starmapstar fn b)" by (rule starmapstar_fails)
  with i have io: "i < length outs \<and> isl (outs ! i)" by (simp add: outs_def)
  have "i \<in> set ord" using i(1) by (simp add: ord_def set_arrival)
  with io have "\<exists>i\<in>set ord. i < length outs \<and> isl (outs ! i)" by blast
  from first_exception_Some [OF this] obtain e k where
    h: "first_exception outs ord = Some e" "k < length ord" "ord ! k < length outs"
       "outs ! (ord ! k) = Inl e"
       "\<forall>j<k. \<not> (ord ! j < length outs \<and> isl (outs ! (ord ! j)))"
    by blast
  have len: "length ord = length bs" by (simp add: ord_def length_arrival)
  have kb: "k < length bs" using h(2) len by simp
  have okb: "ord ! k < length bs" using h(3) lo by simp
  have st: "starmapstar fn (bs ! (ord ! k)) = Inl e"
    using h(4) okb by (simp add: outs_def)
  from starmapstar_Inl [OF st] obtain a' where a': "a' \<in> set (bs ! (ord ! k))" "fn a' = Inl e"
    by blast
  have "bs ! (ord ! k) \<in> set bs" using okb by (rule nth_mem)
  with a'(1) have "a' \<in> set (concat bs)" by auto
  with cc a'(2) have src: "\<exists>a\<in>set args. fn a = Inl e" by auto
  have before: "\<forall>j<k. \<not> isl (starmapstar fn (bs ! (ord ! j)))"
  proof (intro allI impI)
    fix j assume jk: "j < k"
    then have "j < length bs" using kb by simp
    then have jb: "ord ! j < length bs" unfolding ord_def by (rule arrival_less)
    from h(5) jk have "\<not> (ord ! j < length outs \<and> isl (outs ! (ord ! j)))" by blast
    with jb lo show "\<not> isl (starmapstar fn (bs ! (ord ! j)))" by (simp add: outs_def)
  qed
  have "first_exception (map (starmapstar fn) (batches (nat chunksize) args))
          (arrival (length (map (starmapstar fn) (batches (nat chunksize) args))) sched) = Some e"
    using h(1) by (simp add: outs_def ord_def bs_def)
  then have r: "starmap p sched fn args chunksize = Raised (WorkerInvocationError e)"
    using ne assms(1) by (simp add: starmap_def Let_def)
  show ?thesis
    using r src kb st before unfolding bs_def ord_def by blast
qed

lemma multithread_runs:
  fixes fn :: "'a list \<Rightarrow> 'e + 'b"
  assumes "is_pool_kind pool_type" and "0 < processes"
  shows "\<exists>p. multithread fn args pool_type processes maxtasksperchild chunksize sched
           = \<lparr>made = Some p, written = [], result = starmap p sched fn args chunksize\<rparr>"
proof -
  from py_call_kind [OF assms] obtain k where
    "(py_call pool_type processes None :: 'e error + pool)
       = Inr \<lparr>kind = k, workers = nat processes, recycle_after = None\<rparr>" by blast
  then show ?thesis
    using py_type_class [OF is_pool_kind_class [OF assms(1)]]
    by (simp add: multithread_def del: py_call.simps)
qed

lemma multithread_failsafe_runs:
  fixes fn :: "'a list \<Rightarrow> 'e + 'b"
  assumes "is_pool_kind pool_type" and "0 < processes"
  shows "\<exists>p. multithread_failsafe fn args pool_type processes chunksize verbose
           = \<lparr>made = Some p,
              written = fst (collect verbose (map (apply_async p fn) args) ([], [])),
              result = Returned (snd (collect verbose (map (apply_async p fn) args) ([], [])))\<rparr>"
proof -
  from py_call_kind [OF assms] obtain k where
    "(py_call pool_type processes None :: 'e error + pool)
       = Inr \<lparr>kind = k, workers = nat processes, recycle_after = None\<rparr>" by blast
  then show ?thesis
    by (simp add: multithread_failsafe_def split_beta Let_def del: py_call.simps)
qed

lemma multithread_failsafe_result:
  fixes fn :: "'a list \<Rightarrow> 'e + 'b"
  assumes "is_pool_kind pool_type" and "0 < processes"
  shows "\<exists>rs. result (multithread_failsafe fn args pool_type processes chunksize verbose)
               = Returned rs
            \<and> map Inr rs = filter (\<lambda>x. \<not> isl x) (map fn args)"
proof -
  from multithread_failsafe_runs [OF assms] obtain p where
    "multithread_failsafe fn args pool_type processes chunksize verbose
       = \<lparr>made = Some p,
          written = fst (collect verbose (map (apply_async p fn) args) ([], [])),
          result = Returned (snd (collect verbose (map (apply_async p fn) args) ([], [])))\<rparr>"
    by blast
  then have "result (multithread_failsafe fn args pool_type processes chunksize verbose)
      = Returned (snd (collect verbose (map (apply_async p fn) args) ([], [])))"
    by simp
  moreover have "map Inr (snd (collect verbose (map (apply_async p fn) args) ([], [])))
      = filter (\<lambda>x. \<not> isl x) (map fn args)"
    by (simp only: collect_results get_apply_async list.map append_Nil)
  ultimately show ?thesis by blast
qed

lemma multithread_failsafe_quiet:
  fixes fn :: "'a list \<Rightarrow> 'e + 'b"
  shows "written (multithread_failsafe fn args pool_type processes chunksize False) = []"
  by (cases "py_call pool_type processes None :: 'e error + pool")
     (simp_all add: multithread_failsafe_def split_beta Let_def collect_quiet del: py_call.simps)

lemma multithread_failsafe_no_worker_error:
  fixes fn :: "'a list \<Rightarrow> 'e + 'b"
  shows "result (multithread_failsafe fn args pool_type processes chunksize verbose)
           \<noteq> Raised (WorkerInvocationError e)"
  by (cases pool_type)
     (simp_all add: multithread_failsafe_def split_beta Let_def Pool_init_def)

lemma arrival_Nil: "arrival n [] = [0..<n]"
  by (simp add: arrival_def)

lemma starmapstar_Inl_split:
  "starmapstar fn b = Inl e \<Longrightarrow>
     \<exists>pre a post. b = pre @ a # post \<and> (\<forall>x\<in>set pre. \<not> isl (fn x)) \<and> fn a = Inl e"
proof (induction b)
  case Nil
  then show ?case by simp
next
  case (Cons a b)
  show ?case
  proof (cases "fn a")
    case (Inl e')
    with Cons.prems have "fn a = Inl e" by simp
    then have "a # b = [] @ a # b \<and> (\<forall>x\<in>set []. \<not> isl (fn x)) \<and> fn a = Inl e" by simp
    then show ?thesis by blast
  next
    case (Inr v)
    with Cons.prems have "starmapstar fn b = Inl e" by (simp split: sum.splits)
    from Cons.IH [OF this] obtain pre a' post where
      h: "b = pre @ a' # post" "\<forall>x\<in>set pre. \<not> isl (fn x)" "fn a' = Inl e" by blast
    from h Inr have "a # b = (a # pre) @ a' # post \<and> (\<forall>x\<in>set (a # pre). \<not> isl (fn x))
        \<and> fn a' = Inl e" by simp
    then show ?thesis by blast
  qed
qed

lemma first_failing_item:
  assumes "k < length bs" and "starmapstar fn (bs ! k) = Inl e"
    and "\<forall>j<k. \<not> isl (starmapstar fn (bs ! j))"
  shows "\<exists>pre a post. concat bs = pre @ a # post \<and> (\<forall>x\<in>set pre. \<not> isl (fn x))
           \<and> fn a = Inl e"
proof -
  from starmapstar_Inl_split [OF assms(2)] obtain pre a post where
    h: "bs ! k = pre @ a # post" "\<forall>x\<in>set pre. \<not> isl (fn x)" "fn a = Inl e" by blast
  have "bs = take k bs @ bs ! k # drop (Suc k) bs"
    using assms(1) by (rule id_take_nth_drop)
  then have "concat bs = concat (take k bs @ bs ! k # drop (Suc k) bs)" by simp
  then have c: "concat bs = (concat (take k bs) @ pre) @ a # (post @ concat (drop (Suc k) bs))"
    using h(1) by simp
  have "\<not> isl (fn x)" if "x \<in> set (concat (take k bs))" for x
  proof -
    from that obtain b where b: "b \<in> set (take k bs)" "x \<in> set b" by auto
    from b(1) obtain j where j: "j < length (take k bs)" "take k bs ! j = b"
      unfolding in_set_conv_nth by blast
    then have jk: "j < k" and bj: "bs ! j = b" by simp_all
    from assms(3) jk have "\<not> isl (starmapstar fn (bs ! j))" by blast
    with bj have "\<not> (\<exists>a\<in>set b. isl (fn a))" using starmapstar_fails [of b fn] by auto
    with b(2) show ?thesis by blast
  qed
  with h(2) have "\<forall>x\<in>set (concat (take k bs) @ pre). \<not> isl (fn x)" by auto
  with c h(3) show ?thesis by blast
qed

section \<open>Pool construction\<close>

text \<open>
  Whatever \<open>pool_type\<close> is, a pool that \<open>multithread\<close> constructs has no recycling
  threshold: the test \<open>type(pool_type) is Pool\<close> is false for every class, and a value for
  which it is true cannot be called.
\<close>

lemma multithread_never_recycles:
  "made (multithread fn args pool_type processes maxtasksperchild chunksize sched) = Some p
     \<Longrightarrow> recycle_after p = None"
  by (cases pool_type)
     (auto simp add: multithread_def Pool_init_def split: if_splits)

text \<open>
  With \<open>MyPool\<close> as \<open>pool_type\<close> and a positive worker count no dispatch runs: the
  constructor raises at its first worker.
\<close>

lemma dispatch_MyPool_raises:
  fixes fn :: "'a list \<Rightarrow> 'e + 'b"
  assumes "0 < processes"
  shows "multithread fn args MyPool processes maxtasksperchild chunksize sched
           = \<lparr>made = None, written = [], result = Raised AssertionError\<rparr>"
    and "multithread_failsafe fn args MyPool processes chunksize verbose
           = \<lparr>made = None, written = [], result = Raised AssertionError\<rparr>"
  using assms by (simp_all add: multithread_def multithread_failsafe_def Pool_init_def)

text \<open>
  C1 (the process pool kind applies \<open>maxtasksperchild\<close> to the constructed pool, the
  thread pool kind does not forward it). The second half holds; the first does not:
  \<open>multithread(square, [[1]], pool_type=Pool, processes=2, maxtasksperchild=5)\<close>
  constructs \<open>Pool(2)\<close>, a process pool without a recycling threshold, exactly as the
  thread pool kind does.
\<close>

theorem multithread_process_pool_threshold_dropped:
  "made (multithread square [[1]] Pool 2 5 1 [])
     = Some \<lparr>kind = Process, workers = 2, recycle_after = None\<rparr>
   \<and> made (multithread square [[1]] ThreadPool 2 5 1 [])
     = Some \<lparr>kind = Thread, workers = 2, recycle_after = None\<rparr>"
  by (simp add: multithread_def Pool_init_def)

text \<open>
  C8: in all four dispatch modes a worker count that is not positive raises
  \<open>ConfigurationError\<close>, and no pool is constructed, so that no worker is spawned
  (and nothing is written).
\<close>

theorem nonpositive_worker_count:
  fixes fn :: "'a list \<Rightarrow> 'e + 'b"
  assumes "processes \<le> 0" and "is_pool_class pool_type"
  shows "multithread fn args pool_type processes maxtasksperchild chunksize sched
           = \<lparr>made = None, written = [], result = Raised ConfigurationError\<rparr>
       \<and> safe_multithread fn args processes chunksize sched
           = \<lparr>made = None, written = [], result = Raised ConfigurationError\<rparr>
       \<and> multithread_failsafe fn args pool_type processes chunksize verbose
           = \<lparr>made = None, written = [], result = Raised ConfigurationError\<rparr>
       \<and> safe_multithread_failsafe fn args processes chunksize verbose
           = \<lparr>made = None, written = [], result = Raised ConfigurationError\<rparr>"
proof -
  have a: "(py_call pool_type processes None :: 'e error + pool) = Inl ConfigurationError"
    by (rule py_call_nonpositive [OF assms(2) assms(1)])
  have b: "(py_call ThreadPool processes None :: 'e error + pool) = Inl ConfigurationError"
    using assms(1) py_call_nonpositive [of ThreadPool processes] by simp
  have c: "py_type pool_type \<noteq> Pool"
    using assms(2) by (rule py_type_class)
  show ?thesis
    using a b c
    by (simp add: multithread_def safe_multithread_def multithread_failsafe_def
        safe_multithread_failsafe_def del: py_call.simps)
qed

theorem nonpositive_worker_count_witness:
  "(0::int) \<le> 0 \<and> is_pool_class Pool
   \<and> multithread square [[1]] Pool 0 1 1 []
       = \<lparr>made = None, written = [], result = Raised ConfigurationError\<rparr>
   \<and> safe_multithread square [[1]] 0 1 []
       = \<lparr>made = None, written = [], result = Raised ConfigurationError\<rparr>
   \<and> multithread_failsafe square [[1]] Pool 0 1 True
       = \<lparr>made = None, written = [], result = Raised ConfigurationError\<rparr>
   \<and> safe_multithread_failsafe square [[1]] 0 1 True
       = \<lparr>made = None, written = [], result = Raised ConfigurationError\<rparr>"
  using nonpositive_worker_count [of 0 Pool square "[[1]]" 1 1 "[]" True] by simp

section \<open>The deprecated methods against the free functions\<close>

lemma method_multithread_same:
  "jwmultithreaded_multithread self fn args pool_type processes maxtasksperchild chunksize sched
     = multithread fn args pool_type processes maxtasksperchild chunksize sched"
  by (simp add: jwmultithreaded_multithread_def multithread_def)

lemma method_safe_multithread_same:
  "jwmultithreaded_safe_multithread self fn args processes chunksize sched
     = safe_multithread fn args processes chunksize sched"
  by (simp add: jwmultithreaded_safe_multithread_def safe_multithread_def method_multithread_same)

text \<open>
  The failsafe method never returns a result list: either the constructor raises, or the
  iteration over the handle of \<open>starmap_async\<close> does.
\<close>

lemma method_multithread_failsafe_never_returns:
  "\<exists>e. result (jwmultithreaded_multithread_failsafe self fn args pool_type processes
           maxtasksperchild chunksize verbose sched) = Raised e
       \<and> e \<in> {ConfigurationError, TypeError, AssertionError}"
  by (cases pool_type)
     (auto simp add: jwmultithreaded_multithread_failsafe_def Pool_init_def iter_MapResult_def)

text \<open>
  C2 (each deprecated method returns what the free function of the same name returns).
  It holds for \<open>multithread\<close> and \<open>safe_multithread\<close>, and fails for the two failsafe
  methods: on \<open>square\<close> over \<open>[[1]]\<close> with two workers the methods raise \<open>TypeError\<close>
  where the free functions return \<open>[1]\<close>.
\<close>

theorem method_multithread_failsafe_raises:
  "result (jwmultithreaded_multithread_failsafe jwmultithreaded_init square [[1]] Pool 2 1 1 True [])
     = Raised TypeError
   \<and> result (multithread_failsafe square [[1]] Pool 2 1 True) = Returned [1]
   \<and> result (jwmultithreaded_safe_multithread_failsafe jwmultithreaded_init square [[1]] 2 True [])
     = Raised TypeError
   \<and> result (safe_multithread_failsafe square [[1]] 2 1 True) = Returned [1]"
  by (simp add: jwmultithreaded_multithread_failsafe_def multithread_failsafe_def
      jwmultithreaded_safe_multithread_failsafe_def safe_multithread_failsafe_def
      Pool_init_def iter_MapResult_def apply_async_def)

section \<open>Failsafe dispatch\<close>

text \<open>
  C9: the result of failsafe dispatch (the whole observable call) does not depend on
  \<open>chunksize\<close>, in the general and in the thread-restricted function; and each work item
  is a unit of its own: for a pool kind (\<open>Pool\<close> or \<open>ThreadPool\<close>) and a positive worker
  count the call returns, for any two chunk sizes, the same list, which holds the value
  of every item on which \<open>fn\<close> succeeds, in input order. No item is lost because another
  item that a chunk of that size would hold with it fails.
\<close>

theorem failsafe_ignores_chunksize:
  fixes fn :: "'a list \<Rightarrow> 'e + 'b"
  shows "multithread_failsafe fn args pool_type processes c1 verbose
           = multithread_failsafe fn args pool_type processes c2 verbose
       \<and> safe_multithread_failsafe fn args processes c1 verbose
           = safe_multithread_failsafe fn args processes c2 verbose
       \<and> (is_pool_kind pool_type \<and> 0 < processes \<longrightarrow>
            (\<exists>rs. result (multithread_failsafe fn args pool_type processes c1 verbose)
                     = Returned rs
                 \<and> result (multithread_failsafe fn args pool_type processes c2 verbose)
                     = Returned rs
                 \<and> result (safe_multithread_failsafe fn args processes c1 verbose)
                     = Returned rs
                 \<and> map Inr rs = filter (\<lambda>x. \<not> isl x) (map fn args)))"
proof (intro conjI impI)
  show same: "multithread_failsafe fn args pool_type processes c1 verbose
                = multithread_failsafe fn args pool_type processes c2 verbose"
    by (simp add: multithread_failsafe_def)
  show "safe_multithread_failsafe fn args processes c1 verbose
          = safe_multithread_failsafe fn args processes c2 verbose"
    by (simp add: safe_multithread_failsafe_def)
  assume h: "is_pool_kind pool_type \<and> 0 < processes"
  then have k: "is_pool_kind pool_type" and p: "0 < processes" by simp_all
  from multithread_failsafe_result [OF k p, of fn args c1 verbose] obtain rs where
    rs: "result (multithread_failsafe fn args pool_type processes c1 verbose) = Returned rs"
        "map Inr rs = filter (\<lambda>x. \<not> isl x) (map fn args)"
    by blast
  have tp: "is_pool_kind ThreadPool" by simp
  from multithread_failsafe_result [OF tp p, of fn args 1 verbose] obtain rs' where
    rs': "result (multithread_failsafe fn args ThreadPool processes 1 verbose) = Returned rs'"
         "map Inr rs' = filter (\<lambda>x. \<not> isl x) (map fn args)"
    by blast
  from rs(2) rs'(2) have "map (Inr :: 'b \<Rightarrow> 'e + 'b) rs' = map Inr rs" by (simp only:)
  then have "rs' = rs"
    using inj_map_eq_map [of "Inr :: 'b \<Rightarrow> 'e + 'b"] by (simp only: inj_Inr)
  with rs'(1) have safe: "result (safe_multithread_failsafe fn args processes c1 verbose)
      = Returned rs"
    by (simp add: safe_multithread_failsafe_def)
  from rs(1) same have "result (multithread_failsafe fn args pool_type processes c2 verbose)
      = Returned rs" by (simp only:)
  with rs safe show "\<exists>rs. result (multithread_failsafe fn args pool_type processes c1 verbose)
                     = Returned rs
                 \<and> result (multithread_failsafe fn args pool_type processes c2 verbose)
                     = Returned rs
                 \<and> result (safe_multithread_failsafe fn args processes c1 verbose)
                     = Returned rs
                 \<and> map Inr rs = filter (\<lambda>x. \<not> isl x) (map fn args)"
    by blast
qed

theorem failsafe_ignores_chunksize_witness:
  "multithread_failsafe square [[1], [], [3]] Pool 2 1 True
     = multithread_failsafe square [[1], [], [3]] Pool 2 3 True
   \<and> safe_multithread_failsafe square [[1], [], [3]] 2 1 True
     = safe_multithread_failsafe square [[1], [], [3]] 2 3 True
   \<and> is_pool_kind Pool \<and> (0::int) < 2
   \<and> (\<exists>rs. result (multithread_failsafe square [[1], [], [3]] Pool 2 1 True) = Returned rs
          \<and> result (multithread_failsafe square [[1], [], [3]] Pool 2 3 True) = Returned rs
          \<and> result (safe_multithread_failsafe square [[1], [], [3]] 2 1 True) = Returned rs
          \<and> map Inr rs = filter (\<lambda>x. \<not> isl x) (map square [[1], [], [3]]))
   \<and> result (multithread_failsafe square [[1], [], [3]] Pool 2 3 True) = Returned [1, 9]"
proof -
  have h: "is_pool_kind Pool \<and> (0::int) < 2" by simp
  note t = failsafe_ignores_chunksize [of square "[[1], [], [3]]" Pool 2 1 True 3]
  from t have a: "multithread_failsafe square [[1], [], [3]] Pool 2 1 True
      = multithread_failsafe square [[1], [], [3]] Pool 2 3 True"
    and b: "safe_multithread_failsafe square [[1], [], [3]] 2 1 True
      = safe_multithread_failsafe square [[1], [], [3]] 2 3 True"
    by blast+
  from t h obtain rs where
    rs: "result (multithread_failsafe square [[1], [], [3]] Pool 2 1 True) = Returned rs"
        "result (multithread_failsafe square [[1], [], [3]] Pool 2 3 True) = Returned rs"
        "result (safe_multithread_failsafe square [[1], [], [3]] 2 1 True) = Returned rs"
        "map Inr rs = filter (\<lambda>x. \<not> isl x) (map square [[1], [], [3]])"
    by blast
  from rs(4) have "map Inr rs = [Inr 1, Inr 9 :: pyexc + int]" by simp
  then have "rs = [1, 9]" by (auto simp add: map_eq_Cons_conv)
  with rs(2) have c: "result (multithread_failsafe square [[1], [], [3]] Pool 2 3 True)
      = Returned [1, 9]" by simp
  from a b h rs c show ?thesis by blast
qed

text \<open>
  C4: for a pool kind (\<open>Pool\<close> or \<open>ThreadPool\<close>) and a positive worker count, failsafe
  dispatch returns exactly the results of the items on which \<open>fn\<close> succeeds, in input
  order, with nothing standing for a failed item: the outcomes \<open>Inr r\<close> of the results are
  the successful outcomes of \<open>fn\<close> over the input, in order. In particular \<open>reciprocal\<close>
  over \<open>[[1], [0], [2]]\<close> with \<open>verbose\<close> false returns \<open>[1.0, 0.5]\<close> and writes nothing.
\<close>

theorem failsafe_returns_successes_in_order:
  fixes fn :: "'a list \<Rightarrow> 'e + 'b"
  assumes "is_pool_kind pool_type" and "0 < processes"
  shows "(\<exists>rs. result (multithread_failsafe fn args pool_type processes chunksize verbose)
                = Returned rs
              \<and> map Inr rs = filter (\<lambda>x. \<not> isl x) (map fn args))
       \<and> result (multithread_failsafe reciprocal [[1], [0], [2]] pool_type processes
                  chunksize False) = Returned [1, 1 / 2]
       \<and> written (multithread_failsafe reciprocal [[1], [0], [2]] pool_type processes
                  chunksize False) = []"
proof (intro conjI)
  show "\<exists>rs. result (multithread_failsafe fn args pool_type processes chunksize verbose)
               = Returned rs
            \<and> map Inr rs = filter (\<lambda>x. \<not> isl x) (map fn args)"
    using assms by (rule multithread_failsafe_result)
next
  from multithread_failsafe_result [OF assms, of reciprocal "[[1], [0], [2]]" chunksize False]
  obtain rs where
    rs: "result (multithread_failsafe reciprocal [[1], [0], [2]] pool_type processes
           chunksize False) = Returned rs"
        "map Inr rs = filter (\<lambda>x. \<not> isl x) (map reciprocal [[1], [0], [2]])"
    by blast
  from rs(2) have "map Inr rs = [Inr 1, Inr (1 / 2) :: pyexc + real]" by simp
  then have "rs = [1, 1 / 2]" by (auto simp add: map_eq_Cons_conv)
  with rs(1) show "result (multithread_failsafe reciprocal [[1], [0], [2]] pool_type processes
                     chunksize False) = Returned [1, 1 / 2]"
    by simp
next
  show "written (multithread_failsafe reciprocal [[1], [0], [2]] pool_type processes
          chunksize False) = []"
    by (rule multithread_failsafe_quiet)
qed

theorem failsafe_returns_successes_in_order_witness:
  "is_pool_kind ThreadPool \<and> (0::int) < 2
   \<and> (\<exists>rs. result (multithread_failsafe square [[1], [], [3, 4], [5]] ThreadPool 2 1 True)
                = Returned rs
          \<and> map Inr rs = filter (\<lambda>x. \<not> isl x) (map square [[1], [], [3, 4], [5]]))
   \<and> result (multithread_failsafe reciprocal [[1], [0], [2]] ThreadPool 2 1 False)
        = Returned [1, 1 / 2]
   \<and> written (multithread_failsafe reciprocal [[1], [0], [2]] ThreadPool 2 1 False) = []"
  using failsafe_returns_successes_in_order
          [of ThreadPool 2 square "[[1], [], [3, 4], [5]]" 1 True]
  by simp

text \<open>
  C5: failsafe dispatch, general and thread-restricted, never raises an error that an
  invocation of \<open>fn\<close> raised, whatever the arguments; and when every item fails (pool kind \<open>Pool\<close> or
  \<open>ThreadPool\<close>, positive worker count) it returns the empty list.
\<close>

theorem failsafe_never_propagates_worker_error:
  fixes fn :: "'a list \<Rightarrow> 'e + 'b"
  shows "(\<forall>e. result (multithread_failsafe fn args pool_type processes chunksize verbose)
               \<noteq> Raised (WorkerInvocationError e))
       \<and> (\<forall>e. result (safe_multithread_failsafe fn args processes chunksize verbose)
               \<noteq> Raised (WorkerInvocationError e))
       \<and> (is_pool_kind pool_type \<and> 0 < processes \<and> (\<forall>a\<in>set args. isl (fn a))
            \<longrightarrow> result (multithread_failsafe fn args pool_type processes chunksize verbose)
                  = Returned []
              \<and> result (safe_multithread_failsafe fn args processes chunksize verbose)
                  = Returned [])"
proof (intro conjI allI impI)
  fix e
  show "result (multithread_failsafe fn args pool_type processes chunksize verbose)
          \<noteq> Raised (WorkerInvocationError e)"
    by (rule multithread_failsafe_no_worker_error)
  show "result (safe_multithread_failsafe fn args processes chunksize verbose)
          \<noteq> Raised (WorkerInvocationError e)"
    unfolding safe_multithread_failsafe_def by (rule multithread_failsafe_no_worker_error)
next
  assume h: "is_pool_kind pool_type \<and> 0 < processes \<and> (\<forall>a\<in>set args. isl (fn a))"
  then have none: "filter (\<lambda>x. \<not> isl x) (map fn args) = []"
    by (simp add: filter_empty_conv)
  from h multithread_failsafe_result [of pool_type processes fn args chunksize verbose]
  obtain rs where "result (multithread_failsafe fn args pool_type processes chunksize verbose)
      = Returned rs" "map Inr rs = filter (\<lambda>x. \<not> isl x) (map fn args)"
    by blast
  with none show "result (multithread_failsafe fn args pool_type processes chunksize verbose)
      = Returned []" by simp
  from h multithread_failsafe_result [of ThreadPool processes fn args 1 verbose]
  obtain rs' where "result (multithread_failsafe fn args ThreadPool processes 1 verbose)
      = Returned rs'" "map Inr rs' = filter (\<lambda>x. \<not> isl x) (map fn args)"
    by auto
  with none show "result (safe_multithread_failsafe fn args processes chunksize verbose)
      = Returned []" by (simp add: safe_multithread_failsafe_def)
qed

theorem failsafe_never_propagates_worker_error_witness:
  "(\<forall>e. result (multithread_failsafe reciprocal [[0], [0]] Pool 2 1 True)
          \<noteq> Raised (WorkerInvocationError e))
   \<and> (\<forall>e. result (safe_multithread_failsafe reciprocal [[0], [0]] 2 1 True)
          \<noteq> Raised (WorkerInvocationError e))
   \<and> is_pool_kind Pool \<and> (0::int) < 2 \<and> isl (reciprocal [0])
   \<and> result (multithread_failsafe reciprocal [[0], [0]] Pool 2 1 True) = Returned []
   \<and> result (safe_multithread_failsafe reciprocal [[0], [0]] 2 1 True) = Returned []"
  using failsafe_never_propagates_worker_error [of reciprocal "[[0], [0]]" Pool 2 1 True]
  by simp

section \<open>Fail-fast dispatch\<close>

text \<open>
  The chunk size is part of the configuration, as the worker count is: with a chunk size
  below one and a non-empty work-item list \<open>multithread\<close> runs \<open>fn\<close> on nothing and returns
  one \<open>None\<close> placeholder per work item. The properties of fail-fast dispatch below are
  stated for a positive chunk size (the default is 1).
\<close>

lemma multithread_nonpositive_chunksize:
  fixes fn :: "'a list \<Rightarrow> 'e + 'b"
  assumes "is_pool_kind pool_type" and "0 < processes" and "chunksize \<le> 0" and "args \<noteq> []"
  shows "result (multithread fn args pool_type processes maxtasksperchild chunksize sched)
           = Nones (length args)"
proof -
  from multithread_runs [OF assms(1,2)] obtain p where
    "multithread fn args pool_type processes maxtasksperchild chunksize sched
       = \<lparr>made = Some p, written = [], result = starmap p sched fn args chunksize\<rparr>"
    by blast
  then show ?thesis using assms(3,4) by (simp add: starmap_def)
qed

text \<open>
  C3: for a pool kind (\<open>Pool\<close> or \<open>ThreadPool\<close>), a positive worker count and a positive
  chunk size, and for \<open>fn\<close> that raises on no work item, \<open>multithread\<close> returns the list
  of the values of \<open>fn\<close> on the work items, in input order, whatever the schedule. In
  particular \<open>square\<close> over \<open>[[1], [2], [3]]\<close> gives \<open>[1, 4, 9]\<close>.
\<close>

theorem multithread_returns_ordered_results:
  fixes fn :: "'a list \<Rightarrow> 'e + 'b"
  assumes "is_pool_kind pool_type" and "0 < processes" and "0 < chunksize"
    and "\<forall>a\<in>set args. \<not> isl (fn a)"
  shows "(\<exists>rs. result (multithread fn args pool_type processes maxtasksperchild chunksize sched)
                = Returned rs \<and> map Inr rs = map fn args)
       \<and> result (multithread square [[1], [2], [3]] pool_type processes maxtasksperchild
                  chunksize sched) = Returned [1, 4, 9]"
proof
  from multithread_runs [OF assms(1,2)] obtain p where
    "multithread fn args pool_type processes maxtasksperchild chunksize sched
       = \<lparr>made = Some p, written = [], result = starmap p sched fn args chunksize\<rparr>"
    by blast
  then have "result (multithread fn args pool_type processes maxtasksperchild chunksize sched)
               = Returned (map (\<lambda>a. projr (fn a)) args)"
    by (simp add: starmap_all_succeed [OF assms(3,4)])
  moreover have "map Inr (map (\<lambda>a. projr (fn a)) args) = map fn args"
    using assms(4) by (induction args) (auto simp add: isl_def)
  ultimately show "\<exists>rs. result (multithread fn args pool_type processes maxtasksperchild
                      chunksize sched) = Returned rs \<and> map Inr rs = map fn args"
    by blast
next
  from multithread_runs [OF assms(1,2)] obtain p where
    "multithread square [[1], [2], [3]] pool_type processes maxtasksperchild chunksize sched
       = \<lparr>made = Some p, written = [],
          result = starmap p sched square [[1], [2], [3]] chunksize\<rparr>"
    by blast
  moreover have "\<forall>a\<in>set [[1], [2], [3]]. \<not> isl (square a)" by simp
  ultimately show "result (multithread square [[1], [2], [3]] pool_type processes
                     maxtasksperchild chunksize sched) = Returned [1, 4, 9]"
    by (simp add: starmap_all_succeed [OF assms(3)])
qed

theorem multithread_returns_ordered_results_witness:
  "is_pool_kind Pool \<and> (0::int) < 4 \<and> (0::int) < 2
   \<and> \<not> isl (square [1]) \<and> \<not> isl (square [2]) \<and> \<not> isl (square [3])
   \<and> (\<exists>rs. result (multithread square [[1], [2], [3]] Pool 4 1 2 [1, 0]) = Returned rs
            \<and> map Inr rs = map square [[1], [2], [3]])
   \<and> result (multithread square [[1], [2], [3]] Pool 4 1 2 [1, 0]) = Returned [1, 4, 9]"
  using multithread_returns_ordered_results [of Pool 4 2 "[[1], [2], [3]]" square 1 "[1, 0]"]
  by simp

text \<open>
  C6: when \<open>fn\<close> raises on at least one work item (pool kind \<open>Pool\<close> or \<open>ThreadPool\<close>,
  positive worker count and chunk size), \<open>multithread\<close> returns no list: it raises an error \<open>e\<close> that \<open>fn\<close>
  itself raised on one of the items, unchanged. That error is the first to come back: it is
  the error of the batch at some position \<open>k\<close> of the arrival order, and no batch that
  arrived before it failed. When the batches come back in submission order (the empty
  schedule) it is the error of the first failing item of the input.
\<close>

theorem multithread_raises_first_error:
  fixes fn :: "'a list \<Rightarrow> 'e + 'b"
  assumes "is_pool_kind pool_type" and "0 < processes" and "0 < chunksize"
    and "\<exists>a\<in>set args. isl (fn a)"
  shows "\<exists>e k. result (multithread fn args pool_type processes maxtasksperchild chunksize sched)
                 = Raised (WorkerInvocationError e)
            \<and> (\<exists>a\<in>set args. fn a = Inl e)
            \<and> k < length (batches (nat chunksize) args)
            \<and> starmapstar fn (batches (nat chunksize) args
                  ! (arrival (length (batches (nat chunksize) args)) sched ! k)) = Inl e
            \<and> (\<forall>j<k. \<not> isl (starmapstar fn (batches (nat chunksize) args
                  ! (arrival (length (batches (nat chunksize) args)) sched ! j))))
            \<and> (sched = [] \<longrightarrow>
                 (\<exists>pre a post. args = pre @ a # post \<and> (\<forall>x\<in>set pre. \<not> isl (fn x))
                    \<and> fn a = Inl e))"
proof -
  define bs where "bs = batches (nat chunksize) args"
  from multithread_runs [OF assms(1,2)] obtain p where
    "multithread fn args pool_type processes maxtasksperchild chunksize sched
       = \<lparr>made = Some p, written = [], result = starmap p sched fn args chunksize\<rparr>"
    by blast
  then have r: "result (multithread fn args pool_type processes maxtasksperchild chunksize sched)
      = starmap p sched fn args chunksize" by simp
  from starmap_some_fail [OF assms(3,4), of p sched] obtain e k where
    h: "starmap p sched fn args chunksize = Raised (WorkerInvocationError e)"
       "\<exists>a\<in>set args. fn a = Inl e"
       "k < length bs"
       "starmapstar fn (bs ! (arrival (length bs) sched ! k)) = Inl e"
       "\<forall>j<k. \<not> isl (starmapstar fn (bs ! (arrival (length bs) sched ! j)))"
    unfolding bs_def by blast
  have seq: "\<exists>pre a post. args = pre @ a # post \<and> (\<forall>x\<in>set pre. \<not> isl (fn x)) \<and> fn a = Inl e"
    if s: "sched = []"
  proof -
    have k: "starmapstar fn (bs ! k) = Inl e"
      using h(3,4) by (simp add: s arrival_Nil)
    have "\<forall>j<k. \<not> isl (starmapstar fn (bs ! j))"
    proof (intro allI impI)
      fix j assume jk: "j < k"
      with h(5) have "\<not> isl (starmapstar fn (bs ! (arrival (length bs) sched ! j)))" by blast
      moreover have "j < length bs" using jk h(3) by simp
      ultimately show "\<not> isl (starmapstar fn (bs ! j))" by (simp add: s arrival_Nil)
    qed
    from first_failing_item [OF h(3) k this]
    have "\<exists>pre a post. concat bs = pre @ a # post \<and> (\<forall>x\<in>set pre. \<not> isl (fn x))
            \<and> fn a = Inl e" .
    moreover have "concat bs = args"
      unfolding bs_def using assms(3) by (intro concat_batches) simp
    ultimately show ?thesis by simp
  qed
  show ?thesis
    using r h seq unfolding bs_def by (intro exI [of _ e] exI [of _ k]) simp
qed

theorem multithread_raises_first_error_witness:
  "is_pool_kind Pool \<and> (0::int) < 2 \<and> (0::int) < 1
   \<and> (\<exists>a\<in>set [[1], [0], [], [2]]. isl (reciprocal a))
   \<and> (\<exists>e k. result (multithread reciprocal [[1], [0], [], [2]] Pool 2 1 1 [])
                 = Raised (WorkerInvocationError e)
            \<and> (\<exists>a\<in>set [[1], [0], [], [2]]. reciprocal a = Inl e)
            \<and> k < length (batches (nat 1) [[1], [0], [], [2::int]])
            \<and> starmapstar reciprocal (batches (nat 1) [[1], [0], [], [2]]
                  ! (arrival (length (batches (nat 1) [[1], [0], [], [2::int]])) [] ! k)) = Inl e
            \<and> (\<forall>j<k. \<not> isl (starmapstar reciprocal (batches (nat 1) [[1], [0], [], [2]]
                  ! (arrival (length (batches (nat 1) [[1], [0], [], [2::int]])) [] ! j))))
            \<and> (([]::nat list) = [] \<longrightarrow>
                 (\<exists>pre a post. [[1], [0], [], [2]] = pre @ a # post
                    \<and> (\<forall>x\<in>set pre. \<not> isl (reciprocal x)) \<and> reciprocal a = Inl e)))"
  using multithread_raises_first_error [of Pool 2 1 "[[1], [0], [], [2]]" reciprocal 1 "[]"]
  by simp

text \<open>
  C7: when \<open>fn\<close> fails on no work item (pool kind \<open>Pool\<close> or \<open>ThreadPool\<close>,
  positive worker count and chunk size), fail-fast and failsafe dispatch return the same list, and that list is the
  values of \<open>fn\<close> on the work items in input order. This holds for the empty work-item
  list as well as for the non-empty ones.
\<close>

theorem failfast_and_failsafe_agree:
  fixes fn :: "'a list \<Rightarrow> 'e + 'b"
  assumes "is_pool_kind pool_type" and "0 < processes" and "0 < chunksize"
    and "\<forall>a\<in>set args. \<not> isl (fn a)"
  shows "result (multithread fn args pool_type processes maxtasksperchild chunksize sched)
           = result (multithread_failsafe fn args pool_type processes chunksize verbose)
       \<and> (\<exists>rs. result (multithread fn args pool_type processes maxtasksperchild chunksize sched)
                  = Returned rs \<and> map Inr rs = map fn args)"
proof -
  from multithread_runs [OF assms(1,2)] obtain p where
    "multithread fn args pool_type processes maxtasksperchild chunksize sched
       = \<lparr>made = Some p, written = [], result = starmap p sched fn args chunksize\<rparr>"
    by blast
  then have ff: "result (multithread fn args pool_type processes maxtasksperchild chunksize sched)
      = Returned (map (\<lambda>a. projr (fn a)) args)"
    by (simp add: starmap_all_succeed [OF assms(3,4)])
  have m: "map Inr (map (\<lambda>a. projr (fn a)) args) = map fn args"
    using assms(4) by (induction args) (auto simp add: isl_def)
  from multithread_failsafe_result [OF assms(1,2)] obtain rs where
    fs: "result (multithread_failsafe fn args pool_type processes chunksize verbose)
           = Returned rs"
        "map Inr rs = filter (\<lambda>x. \<not> isl x) (map fn args)"
    by blast
  have "filter (\<lambda>x. \<not> isl x) (map fn args) = map fn args"
    using assms(4) by (simp add: filter_id_conv)
  with fs(2) have "map Inr rs = map fn args" by (simp only:)
  with m have "map (Inr :: 'b \<Rightarrow> 'e + 'b) rs = map Inr (map (\<lambda>a. projr (fn a)) args)"
    by (simp only:)
  then have "rs = map (\<lambda>a. projr (fn a)) args"
    using inj_map_eq_map [of "Inr :: 'b \<Rightarrow> 'e + 'b"] by (simp only: inj_Inr)
  with ff fs(1) m show ?thesis by simp
qed

theorem failfast_and_failsafe_agree_witness:
  "is_pool_kind Pool \<and> (0::int) < 3 \<and> (0::int) < 2
   \<and> \<not> isl (square [3]) \<and> \<not> isl (square [1]) \<and> \<not> isl (square [2])
   \<and> result (multithread square [[3], [1], [2]] Pool 3 1 2 [1])
       = result (multithread_failsafe square [[3], [1], [2]] Pool 3 2 True)
   \<and> (\<exists>rs. result (multithread square [[3], [1], [2]] Pool 3 1 2 [1]) = Returned rs
          \<and> map Inr rs = map square [[3], [1], [2]])"
proof -
  have h: "is_pool_kind Pool" "(0::int) < 3" "(0::int) < 2"
    "\<forall>a\<in>set [[3], [1], [2]]. \<not> isl (square a)"
    by simp_all
  have c: "\<not> isl (square [3])" "\<not> isl (square [1])" "\<not> isl (square [2])"
    by simp_all
  from failfast_and_failsafe_agree [OF h, of 1 "[1]" True] h(1,2,3) c show ?thesis by blast
qed

section \<open>The default of \<open>args\<close>\<close>

text \<open>
  C10: with \<open>args\<close> omitted the work-item list is the default \<open>[[]]\<close>, one empty work
  item: \<open>fn\<close> is applied once, to no argument, and when that call returns \<open>v\<close> each of
  the four dispatch functions returns the one-element list \<open>[v]\<close> (pool kind \<open>Pool\<close> or
  \<open>ThreadPool\<close>, positive worker count and chunk size).
\<close>

theorem omitted_args_single_call:
  fixes fn :: "'a list \<Rightarrow> 'e + 'b"
  assumes "is_pool_kind pool_type" and "0 < processes" and "0 < chunksize"
    and "fn [] = Inr v"
  shows "map fn args_default = [fn []]
       \<and> result (multithread fn args_default pool_type processes maxtasksperchild chunksize sched)
           = Returned [v]
       \<and> result (safe_multithread fn args_default processes chunksize sched) = Returned [v]
       \<and> result (multithread_failsafe fn args_default pool_type processes chunksize verbose)
           = Returned [v]
       \<and> result (safe_multithread_failsafe fn args_default processes chunksize verbose)
           = Returned [v]"
proof -
  have ok: "\<forall>a\<in>set (args_default :: 'a list list). \<not> isl (fn a)"
    using assms(4) by (simp add: args_default_def)
  have one: "map (\<lambda>a. projr (fn a)) args_default = [v]"
    using assms(4) by (simp add: args_default_def)
  have ff: "result (multithread fn args_default pt processes m chunksize sched) = Returned [v]"
    if "is_pool_kind pt" for pt m
  proof -
    from multithread_runs [OF that assms(2)] obtain p where
      "multithread fn args_default pt processes m chunksize sched
         = \<lparr>made = Some p, written = [],
            result = starmap p sched fn args_default chunksize\<rparr>"
      by blast
    then show ?thesis by (simp add: starmap_all_succeed [OF assms(3) ok] one)
  qed
  have fs: "result (multithread_failsafe fn args_default pt processes c verbose) = Returned [v]"
    if "is_pool_kind pt" for pt c
  proof -
    from multithread_failsafe_result [OF that assms(2)] obtain rs where
      rs: "result (multithread_failsafe fn args_default pt processes c verbose) = Returned rs"
          "map Inr rs = filter (\<lambda>x. \<not> isl x) (map fn args_default)"
      by blast
    from rs(2) assms(4) have "map Inr rs = [Inr v :: 'e + 'b]"
      by (simp add: args_default_def)
    then have "rs = [v]" by (auto simp add: map_eq_Cons_conv)
    with rs(1) show ?thesis by simp
  qed
  have tp: "is_pool_kind ThreadPool" by simp
  show ?thesis
    using ff [OF assms(1)] ff [OF tp] fs [OF assms(1)] fs [OF tp]
    by (simp add: safe_multithread_def safe_multithread_failsafe_def args_default_def)
qed

theorem omitted_args_single_call_witness:
  "is_pool_kind Pool \<and> (0::int) < 4 \<and> (0::int) < 1
   \<and> (\<lambda>a. Inr 7 :: pyexc + int) ([] :: int list) = Inr 7
   \<and> map (\<lambda>a. Inr 7 :: pyexc + int) (args_default :: int list list) = [Inr 7]
   \<and> result (multithread (\<lambda>a. Inr 7 :: pyexc + int) (args_default :: int list list)
         Pool 4 1 1 []) = Returned [7]
   \<and> result (safe_multithread (\<lambda>a. Inr 7 :: pyexc + int) (args_default :: int list list)
         4 1 []) = Returned [7]
   \<and> result (multithread_failsafe (\<lambda>a. Inr 7 :: pyexc + int) (args_default :: int list list)
         Pool 4 1 True) = Returned [7]
   \<and> result (safe_multithread_failsafe (\<lambda>a. Inr 7 :: pyexc + int)
         (args_default :: int list list) 4 1 True) = Returned [7]"
  using omitted_args_single_call
          [of Pool 4 1 "\<lambda>a. Inr 7 :: pyexc + int" 7 1 "[]" True]
  by simp

end
